theory Spec2Isabelle
  imports Main "HOL-Library.Char_ord"
begin

section \<open>Python string methods used by the field classes\<close>

text \<open>
  \<^verbatim>\<open>salesforce/fields.py\<close> calls three methods of Python's \<^verbatim>\<open>str\<close> on the declared
  name of a field: \<^verbatim>\<open>islower()\<close>, \<^verbatim>\<open>title()\<close> and \<^verbatim>\<open>replace('_', '')\<close>.

  What \<^verbatim>\<open>islower()\<close> and \<^verbatim>\<open>title()\<close> return depends on the character tables of the
  interpreter: on Python 3 they follow Unicode, and a declared name may hold letters
  outside ASCII. The tables are no part of the repository, so the functions of the fields
  take the two methods as the parameters \<open>islower\<close> and \<open>title\<close>, and every property
  below holds whatever they are.

  A name is the string of its bytes in UTF-8. \<^verbatim>\<open>replace('_', '')\<close> and the suffixes the
  code appends touch ASCII bytes only, which never occur inside the encoding of another
  character, so they are computed on the bytes.

  \<open>islower_ascii\<close> and \<open>title_ascii\<close> are the two methods on text whose characters are
  all ASCII, written after the interpreter's loops. They give the parameters their value in
  the examples, all of which are ASCII names; they say nothing about other names.
\<close>

definition islower_char :: "char \<Rightarrow> bool" where
  "islower_char c = (CHR ''a'' \<le> c \<and> c \<le> CHR ''z'')"

definition isupper_char :: "char \<Rightarrow> bool" where
  "isupper_char c = (CHR ''A'' \<le> c \<and> c \<le> CHR ''Z'')"

definition toupper_char :: "char \<Rightarrow> char" where
  "toupper_char c = (if islower_char c then char_of (of_char c - (32::nat)) else c)"

definition tolower_char :: "char \<Rightarrow> char" where
  "tolower_char c = (if isupper_char c then char_of (of_char c + (32::nat)) else c)"

text \<open>
  \<^verbatim>\<open>s.islower()\<close> on ASCII text: no character is upper-case and at least one is
  lower-case. The loop returns False at the first upper-case character and otherwise
  remembers in \<open>cased\<close> whether a lower-case one was seen.
\<close>

fun islower_loop :: "bool \<Rightarrow> string \<Rightarrow> bool" where
  "islower_loop cased [] = cased"
| "islower_loop cased (c # cs) =
     (if isupper_char c then False
      else if \<not> cased \<and> islower_char c then islower_loop True cs
      else islower_loop cased cs)"

definition islower_ascii :: "string \<Rightarrow> bool" where
  "islower_ascii s = islower_loop False s"

text \<open>
  \<^verbatim>\<open>s.title()\<close> on ASCII text: a cased character that follows an uncased one (or starts the string) is
  upper-cased, a cased character that follows a cased one is lower-cased, and an uncased
  character is kept and ends the word.
\<close>

fun title_loop :: "bool \<Rightarrow> string \<Rightarrow> string" where
  "title_loop previous_is_cased [] = []"
| "title_loop previous_is_cased (c # cs) =
     (if islower_char c then
        (if \<not> previous_is_cased then toupper_char c else c) # title_loop True cs
      else if isupper_char c then
        (if previous_is_cased then tolower_char c else c) # title_loop True cs
      else c # title_loop False cs)"

definition title_ascii :: "string \<Rightarrow> string" where
  "title_ascii s = title_loop False s"

text \<open>\<^verbatim>\<open>s.replace(old, new)\<close> for a one-character \<open>old\<close>: every occurrence is replaced.\<close>

definition replace :: "char \<Rightarrow> string \<Rightarrow> string \<Rightarrow> string" where
  "replace old new s = concat (map (\<lambda>c. if c = old then new else [c]) s)"

section \<open>Field descriptors and column naming\<close>

text \<open>
  The attributes of a field that the naming hooks read: the declared \<open>name\<close>, the optional
  \<open>db_column\<close> override (\<open>None\<close> when absent), and the two options \<^verbatim>\<open>SfField.__init__\<close>
  pops from the keyword arguments, \<open>sf_read_only\<close> (default 0) and \<open>custom\<close>.
\<close>

record field =
  name :: string
  db_column :: "string option"
  sf_read_only :: nat
  sf_custom :: bool

definition FULL_WRITABLE :: nat where "FULL_WRITABLE = 0"
definition NOT_UPDATEABLE :: nat where "NOT_UPDATEABLE = 1"
definition NOT_CREATEABLE :: nat where "NOT_CREATEABLE = 2"
definition READ_ONLY :: nat where "READ_ONLY = 3"

text \<open>
  The framework's own \<^verbatim>\<open>Field.get_attname\<close>, which every scalar variant inherits: the
  attribute name is the declared name (the source quotes this rule in the comment of
  \<^verbatim>\<open>get_attname_column\<close>).
\<close>

definition Field_get_attname :: "field \<Rightarrow> string" where
  "Field_get_attname self = name self"

text \<open>
  \<^verbatim>\<open>SfField.get_attname_column\<close>. The call \<^verbatim>\<open>self.get_attname()\<close> is dispatched on the
  class of the field, so the method is a parameter: \<open>Field_get_attname\<close> for the scalar
  variants, \<open>ForeignKey_get_attname\<close> for relations. \<open>islower\<close> and \<open>title\<close> are the
  interpreter's \<^verbatim>\<open>str.islower\<close> and \<^verbatim>\<open>str.title\<close>.
\<close>

definition SfField_get_attname_column ::
  "(string \<Rightarrow> bool) \<Rightarrow> (string \<Rightarrow> string) \<Rightarrow> (field \<Rightarrow> string) \<Rightarrow> field \<Rightarrow> string \<times> string" where
  "SfField_get_attname_column islower title get_attname self =
     (let attname = get_attname self;
          column =
            (case db_column self of
               Some explicit \<Rightarrow> explicit
             | None \<Rightarrow>
                 (let column =
                        (if \<not> islower (name self) then name self
                         else replace CHR ''_'' [] (title (name self)))
                  in if sf_custom self then column @ ''__c'' else column))
      in (attname, column))"

text \<open>\<^verbatim>\<open>ForeignKey.get_attname\<close> and \<^verbatim>\<open>ForeignKey.get_attname_column\<close>.\<close>

definition ForeignKey_get_attname :: "(string \<Rightarrow> bool) \<Rightarrow> field \<Rightarrow> string" where
  "ForeignKey_get_attname islower self =
     (if islower (name self) then name self @ ''_id'' else name self @ ''Id'')"

definition ForeignKey_get_attname_column ::
  "(string \<Rightarrow> bool) \<Rightarrow> (string \<Rightarrow> string) \<Rightarrow> field \<Rightarrow> string \<times> string" where
  "ForeignKey_get_attname_column islower title self =
     (let (attname, column) =
            SfField_get_attname_column islower title (ForeignKey_get_attname islower) self
      in if db_column self = None \<and> \<not> sf_custom self then (attname, column @ ''Id'')
         else (attname, column))"

section \<open>Python values, keyword arguments and errors\<close>

text \<open>
  The constructors take \<^verbatim>\<open>*args, **kwargs\<close>. A value is one of the kinds the code
  tells apart: \<open>None\<close>, a boolean, an integer, a string, an object that has a
  \<^verbatim>\<open>__name__\<close> (a function such as the deletion policies of the framework, carried with
  that name), a lazy translation object (what \<^verbatim>\<open>ugettext_lazy\<close>, which the module imports
  as \<^verbatim>\<open>_\<close>, returns; carried with the text it stands for; it is not an instance of a
  string type), or any other object (carried with a tag that identifies it). The test
  \<^verbatim>\<open>x is True\<close> is equality with \<open>PyBool True\<close>: the integer 1 is a different value.
\<close>

datatype pyval =
    PyNone
  | PyBool bool
  | PyInt int
  | PyStr string
  | PyFun string
  | PyLazy string
  | PyObj string

type_synonym kwargs = "string \<rightharpoonup> pyval"

datatype error =
    AssertionError string
  | IndexError
  | AttributeError
  | Raised string

text \<open>\<^verbatim>\<open>kwargs.get(key, default)\<close>.\<close>

definition kwargs_get :: "kwargs \<Rightarrow> string \<Rightarrow> pyval \<Rightarrow> pyval" where
  "kwargs_get kwargs key dflt = (case kwargs key of None \<Rightarrow> dflt | Some v \<Rightarrow> v)"

text \<open>\<^verbatim>\<open>x.__name__\<close>: an object without the attribute raises AttributeError.\<close>

definition getattr_name :: "pyval \<Rightarrow> error + string" where
  "getattr_name x = (case x of PyFun n \<Rightarrow> Inr n | _ \<Rightarrow> Inl AttributeError)"

text \<open>\<^verbatim>\<open>args[0]\<close>: an empty tuple raises IndexError.\<close>

definition args_first :: "pyval list \<Rightarrow> error + pyval" where
  "args_first args = (case args of [] \<Rightarrow> Inl IndexError | x # _ \<Rightarrow> Inr x)"

section \<open>SalesforceAutoField\<close>

text \<open>
  \<^verbatim>\<open>SalesforceAutoField.__init__\<close>. The constructor of the framework's \<^verbatim>\<open>Field\<close>, to
  which the call is passed on, is the parameter \<open>Field_init\<close>; \<open>class_name\<close> is
  \<^verbatim>\<open>self.__class__.__name__\<close>.
\<close>

definition SalesforceAutoField_init ::
  "(pyval list \<Rightarrow> kwargs \<Rightarrow> error + 'f) \<Rightarrow> string \<Rightarrow> pyval list \<Rightarrow> kwargs \<Rightarrow> error + 'f" where
  "SalesforceAutoField_init Field_init class_name args kwargs =
     (if kwargs_get kwargs ''primary_key'' (PyBool False) \<noteq> PyBool True
      then Inl (AssertionError (class_name @ ''s must have primary_key=True.''))
      else Field_init args
             (kwargs(''blank'' \<mapsto> PyBool False, ''null'' \<mapsto> PyBool False, ''default'' \<mapsto> PyNone)))"

definition get_internal_type :: string where
  "get_internal_type = ''AutoField''"

text \<open>
  \<^verbatim>\<open>to_python\<close>, \<^verbatim>\<open>validate\<close> and \<^verbatim>\<open>get_prep_value\<close>. The framework's
  \<^verbatim>\<open>smart_text\<close> is a parameter: a call of it returns a value or raises, and
  \<^verbatim>\<open>to_python\<close> returns what it returns.
\<close>

definition isinstance_string_types :: "pyval \<Rightarrow> bool" where
  "isinstance_string_types x = (case x of PyStr _ \<Rightarrow> True | _ \<Rightarrow> False)"

definition to_python :: "(pyval \<Rightarrow> error + pyval) \<Rightarrow> pyval \<Rightarrow> error + pyval" where
  "to_python smart_text v =
     (if isinstance_string_types v \<or> v = PyNone then Inr v else smart_text v)"

text \<open>
  The \<^verbatim>\<open>smart_text\<close> of the framework (\<^verbatim>\<open>django.utils.encoding\<close>, not part of the
  repository) returns a lazy translation object as it is and passes every other value to
  \<^verbatim>\<open>force_text\<close>, here a parameter.
\<close>

definition django_smart_text :: "(pyval \<Rightarrow> error + pyval) \<Rightarrow> pyval \<Rightarrow> error + pyval" where
  "django_smart_text force_text s = (case s of PyLazy _ \<Rightarrow> Inr s | _ \<Rightarrow> force_text s)"

definition validate :: "pyval \<Rightarrow> 'm \<Rightarrow> error + unit" where
  "validate v model_instance = Inr ()"

definition get_prep_value :: "(pyval \<Rightarrow> error + pyval) \<Rightarrow> pyval \<Rightarrow> error + pyval" where
  "get_prep_value smart_text v = to_python smart_text v"

text \<open>
  \<^verbatim>\<open>contribute_to_class\<close> works on \<^verbatim>\<open>cls._meta\<close>, of which the method reads and writes
  \<open>has_auto_field\<close> and \<open>auto_field\<close>; what else the class holds is the extension of the
  record. The inherited \<^verbatim>\<open>contribute_to_class\<close> of the framework is the parameter
  \<open>super_contribute\<close>.
\<close>

record 'f options =
  has_auto_field :: bool
  auto_field :: "'f option"

definition contribute_to_class ::
  "('f \<Rightarrow> ('f, 'm) options_scheme \<Rightarrow> string \<Rightarrow> error + ('f, 'm) options_scheme) \<Rightarrow>
   'f \<Rightarrow> ('f, 'm) options_scheme \<Rightarrow> string \<Rightarrow> error + ('f, 'm) options_scheme" where
  "contribute_to_class super_contribute self cls nm =
     (if has_auto_field cls
      then Inl (AssertionError (''A model can'' @ [CHR 0x27] @ ''t have more than one AutoField.''))
      else case super_contribute self cls nm of
             Inl e \<Rightarrow> Inl e
           | Inr cls' \<Rightarrow> Inr (cls'\<lparr>has_auto_field := True, auto_field := Some self\<rparr>))"

text \<open>
  A model class that declares several identifier fields attaches them one after the
  other; the first error stops the construction of the class.
\<close>

fun contribute_all ::
  "('f \<Rightarrow> ('f, 'm) options_scheme \<Rightarrow> string \<Rightarrow> error + ('f, 'm) options_scheme) \<Rightarrow>
   ('f, 'm) options_scheme \<Rightarrow> ('f \<times> string) list \<Rightarrow> error + ('f, 'm) options_scheme" where
  "contribute_all super_contribute cls [] = Inr cls"
| "contribute_all super_contribute cls ((f, nm) # rest) =
     (case contribute_to_class super_contribute f cls nm of
        Inl e \<Rightarrow> Inl e
      | Inr cls' \<Rightarrow> contribute_all super_contribute cls' rest)"

definition formfield :: "kwargs \<Rightarrow> pyval" where
  "formfield kwargs = PyNone"

section \<open>ForeignKey construction\<close>

text \<open>The deletion policies of the framework are functions, told apart by \<^verbatim>\<open>__name__\<close>.\<close>

definition CASCADE :: pyval where "CASCADE = PyFun ''CASCADE''"
definition PROTECT :: pyval where "PROTECT = PyFun ''PROTECT''"
definition DO_NOTHING :: pyval where "DO_NOTHING = PyFun ''DO_NOTHING''"
definition SET_NULL :: pyval where "SET_NULL = PyFun ''SET_NULL''"

definition on_delete_warning :: "string \<Rightarrow> string \<Rightarrow> string" where
  "on_delete_warning on_delete related_object =
     ''Only foreign keys with on_delete = PROTECT or DO_NOTHING are currently supported, not ''
     @ on_delete @ '' related to '' @ related_object"

text \<open>
  \<^verbatim>\<open>ForeignKey.__init__\<close>. The warnings issued so far are threaded through as a list, and
  the result pairs the outcome with that list. \<open>str_of\<close> is the text form \<^verbatim>\<open>%s\<close> gives the
  related object; \<open>super_init\<close> is the rest of the constructor chain (\<^verbatim>\<open>SfField.__init__\<close>,
  then the framework's), called with the arguments as they were received.
\<close>

definition ForeignKey_init ::
  "(pyval \<Rightarrow> string) \<Rightarrow>
   (pyval list \<Rightarrow> kwargs \<Rightarrow> string list \<Rightarrow> (error + 'f) \<times> string list) \<Rightarrow>
   pyval list \<Rightarrow> kwargs \<Rightarrow> string list \<Rightarrow> (error + 'f) \<times> string list" where
  "ForeignKey_init str_of super_init args kwargs warnings =
     (case getattr_name (kwargs_get kwargs ''on_delete'' CASCADE) of
        Inl e \<Rightarrow> (Inl e, warnings)
      | Inr on_delete \<Rightarrow>
          if \<not> (on_delete \<in> set [''PROTECT'', ''DO_NOTHING'']) then
            (case args_first args of
               Inl e \<Rightarrow> (Inl e, warnings)
             | Inr related_object \<Rightarrow>
                 super_init args kwargs
                   (warnings @ [on_delete_warning on_delete (str_of related_object)]))
          else super_init args kwargs warnings)"

section \<open>Properties\<close>

text \<open>What the ASCII loops compute, and what \<open>replace\<close> removes.\<close>

lemma islower_loop_iff:
  "islower_loop cased s \<longleftrightarrow>
     (cased \<or> (\<exists>c \<in> set s. islower_char c)) \<and> (\<forall>c \<in> set s. \<not> isupper_char c)"
  by (induction s arbitrary: cased) auto

lemma islower_ascii_iff:
  "islower_ascii s \<longleftrightarrow> (\<exists>c \<in> set s. islower_char c) \<and> (\<forall>c \<in> set s. \<not> isupper_char c)"
  by (simp add: islower_ascii_def islower_loop_iff)

lemma replace_removes: "old \<notin> set (replace old [] s)"
  by (induction s) (simp_all add: replace_def)

lemma replace_empty_filter: "replace old [] s = filter (\<lambda>c. c \<noteq> old) s"
  by (induction s) (simp_all add: replace_def)

lemma column_no_override:
  "db_column self = None \<Longrightarrow>
   snd (SfField_get_attname_column islower title get_attname self) =
     (if islower (name self) then replace CHR ''_'' [] (title (name self)) else name self)
     @ (if sf_custom self then ''__c'' else [])"
  by (simp add: SfField_get_attname_column_def)

text \<open>
  C1. Without a \<open>db_column\<close> override, the base column name (the column computed before
  any suffix, that is with the custom flag off) depends on the declared name alone: a name
  for which \<^verbatim>\<open>islower()\<close> is false is used unchanged; a name for which it is true gives
  its \<^verbatim>\<open>title()\<close> form with every underscore removed, so the result holds no underscore.
  This holds whatever the interpreter's \<open>islower\<close> and \<open>title\<close> are, and for every
  \<open>get_attname\<close>, hence for scalar and relation fields alike.
\<close>

theorem base_column_name:
  assumes "db_column self = None"
  shows "(\<not> islower (name self) \<longrightarrow>
            snd (SfField_get_attname_column islower title get_attname (self\<lparr>sf_custom := False\<rparr>))
              = name self)
       \<and> (islower (name self) \<longrightarrow>
            snd (SfField_get_attname_column islower title get_attname (self\<lparr>sf_custom := False\<rparr>))
              = replace CHR ''_'' [] (title (name self))
          \<and> CHR ''_'' \<notin> set (snd (SfField_get_attname_column islower title get_attname
                                      (self\<lparr>sf_custom := False\<rparr>))))"
  using assms by (simp add: column_no_override replace_removes)

theorem base_column_name_witness:
  "db_column \<lparr>name = ''email_bounced_reason'', db_column = None, sf_read_only = 0, sf_custom = True\<rparr> = None
   \<and> islower_ascii ''email_bounced_reason''
   \<and> snd (SfField_get_attname_column islower_ascii title_ascii Field_get_attname
        \<lparr>name = ''email_bounced_reason'', db_column = None, sf_read_only = 0, sf_custom = False\<rparr>)
      = ''EmailBouncedReason''
   \<and> db_column \<lparr>name = ''LastName'', db_column = None, sf_read_only = 0, sf_custom = False\<rparr> = None
   \<and> \<not> islower_ascii ''LastName''
   \<and> snd (SfField_get_attname_column islower_ascii title_ascii Field_get_attname
        \<lparr>name = ''LastName'', db_column = None, sf_read_only = 0, sf_custom = False\<rparr>)
      = ''LastName''"
proof -
  let ?f = "\<lparr>name = ''email_bounced_reason'', db_column = None, sf_read_only = 0, sf_custom = True\<rparr>"
  let ?g = "\<lparr>name = ''LastName'', db_column = None, sf_read_only = 0, sf_custom = False\<rparr>"
  have f: "db_column ?f = None" and g: "db_column ?g = None" by simp_all
  have lo: "islower_ascii ''email_bounced_reason''" and up: "\<not> islower_ascii ''LastName''"
    by code_simp+
  have ev: "replace CHR ''_'' [] (title_ascii ''email_bounced_reason'') = ''EmailBouncedReason''"
    by code_simp
  from base_column_name [OF f, where islower = islower_ascii and title = title_ascii
                          and get_attname = Field_get_attname]
       base_column_name [OF g, where islower = islower_ascii and title = title_ascii
                          and get_attname = Field_get_attname]
       lo up ev
  show ?thesis by simp
qed

lemma ForeignKey_column_unfold:
  "snd (ForeignKey_get_attname_column islower title self) =
     snd (SfField_get_attname_column islower title (ForeignKey_get_attname islower) self)
     @ (if db_column self = None \<and> \<not> sf_custom self then ''Id'' else [])"
  by (simp add: ForeignKey_get_attname_column_def split: prod.splits)

text \<open>
  C2. With \<open>custom=True\<close> and no \<open>db_column\<close> override, the column is the base column
  name followed by \<open>__c\<close>: the suffix is added to the transformed name, for a scalar
  field and for a relation field.
\<close>

theorem custom_suffix_after_base:
  assumes "db_column self = None" and "sf_custom self"
  shows "snd (SfField_get_attname_column islower title get_attname self) =
           snd (SfField_get_attname_column islower title get_attname (self\<lparr>sf_custom := False\<rparr>))
           @ ''__c''
       \<and> snd (ForeignKey_get_attname_column islower title self) =
           snd (SfField_get_attname_column islower title (ForeignKey_get_attname islower)
                  (self\<lparr>sf_custom := False\<rparr>))
           @ ''__c''"
  using assms by (simp add: ForeignKey_column_unfold column_no_override)

theorem custom_suffix_after_base_witness:
  "db_column \<lparr>name = ''my_field'', db_column = None, sf_read_only = 0, sf_custom = True\<rparr> = None
   \<and> sf_custom \<lparr>name = ''my_field'', db_column = None, sf_read_only = 0, sf_custom = True\<rparr>
   \<and> snd (SfField_get_attname_column islower_ascii title_ascii Field_get_attname
        \<lparr>name = ''my_field'', db_column = None, sf_read_only = 0, sf_custom = True\<rparr>)
      = ''MyField__c''
   \<and> snd (SfField_get_attname_column islower_ascii title_ascii Field_get_attname
        \<lparr>name = ''my_field__c'', db_column = None, sf_read_only = 0, sf_custom = False\<rparr>)
      = ''MyFieldC''"
proof -
  let ?f = "\<lparr>name = ''my_field'', db_column = None, sf_read_only = 0, sf_custom = True\<rparr>"
  have d: "db_column ?f = None" and c: "sf_custom ?f" by simp_all
  have base: "snd (SfField_get_attname_column islower_ascii title_ascii Field_get_attname
        \<lparr>name = ''my_field'', db_column = None, sf_read_only = 0, sf_custom = False\<rparr>) = ''MyField''"
    by code_simp
  have before: "snd (SfField_get_attname_column islower_ascii title_ascii Field_get_attname
        \<lparr>name = ''my_field__c'', db_column = None, sf_read_only = 0, sf_custom = False\<rparr>) = ''MyFieldC''"
    by code_simp
  from custom_suffix_after_base [OF d c, where islower = islower_ascii and title = title_ascii
                                  and get_attname = Field_get_attname]
       base before
  show ?thesis by simp
qed

text \<open>
  C3. An explicit \<open>db_column\<close> is the column, whatever the custom flag and the casing of
  the declared name: no title-casing, no \<open>__c\<close>, and for a relation field no \<open>Id\<close>.
\<close>

theorem explicit_db_column_verbatim:
  assumes "db_column self = Some explicit"
  shows "snd (SfField_get_attname_column islower title get_attname self) = explicit
       \<and> snd (ForeignKey_get_attname_column islower title self) = explicit"
  using assms by (simp add: ForeignKey_column_unfold SfField_get_attname_column_def)

theorem explicit_db_column_verbatim_witness:
  "db_column \<lparr>name = ''my_lookup'', db_column = Some ''legacy_col'', sf_read_only = 0, sf_custom = True\<rparr>
     = Some ''legacy_col''
   \<and> snd (SfField_get_attname_column islower_ascii title_ascii Field_get_attname
        \<lparr>name = ''my_lookup'', db_column = Some ''legacy_col'', sf_read_only = 0, sf_custom = True\<rparr>)
      = ''legacy_col''
   \<and> snd (ForeignKey_get_attname_column islower_ascii title_ascii
        \<lparr>name = ''my_lookup'', db_column = Some ''legacy_col'', sf_read_only = 0, sf_custom = True\<rparr>)
      = ''legacy_col''"
proof -
  let ?f = "\<lparr>name = ''my_lookup'', db_column = Some ''legacy_col'', sf_read_only = 0, sf_custom = True\<rparr>"
  have d: "db_column ?f = Some ''legacy_col''" by simp
  from explicit_db_column_verbatim [OF d, where islower = islower_ascii and title = title_ascii
                                     and get_attname = Field_get_attname]
       d
  show ?thesis by simp
qed

text \<open>
  C4. The attribute name of a relation field is the declared name followed by \<open>_id\<close> when
  \<^verbatim>\<open>islower()\<close> is true of the declared name and by \<open>Id\<close> otherwise, whatever the
  interpreter's \<open>islower\<close> is; it is the first component of what
  \<open>ForeignKey_get_attname_column\<close> returns.
\<close>

theorem ForeignKey_attname_suffix:
  "(islower (name self) \<longrightarrow> ForeignKey_get_attname islower self = name self @ ''_id'')
   \<and> (\<not> islower (name self) \<longrightarrow> ForeignKey_get_attname islower self = name self @ ''Id'')
   \<and> fst (ForeignKey_get_attname_column islower title self) = ForeignKey_get_attname islower self"
  by (simp add: ForeignKey_get_attname_def ForeignKey_get_attname_column_def
        SfField_get_attname_column_def)

theorem ForeignKey_attname_suffix_witness:
  "islower_ascii ''owner''
   \<and> ForeignKey_get_attname islower_ascii
        \<lparr>name = ''owner'', db_column = None, sf_read_only = 0, sf_custom = False\<rparr>
      = ''owner_id''
   \<and> \<not> islower_ascii ''Owner''
   \<and> ForeignKey_get_attname islower_ascii
        \<lparr>name = ''Owner'', db_column = None, sf_read_only = 0, sf_custom = False\<rparr>
      = ''OwnerId''"
proof -
  have lo: "islower_ascii ''owner''" and up: "\<not> islower_ascii ''Owner''" by code_simp+
  from ForeignKey_attname_suffix
         [where islower = islower_ascii and title = title_ascii
            and self = "\<lparr>name = ''owner'', db_column = None, sf_read_only = 0, sf_custom = False\<rparr>"]
       ForeignKey_attname_suffix
         [where islower = islower_ascii and title = title_ascii
            and self = "\<lparr>name = ''Owner'', db_column = None, sf_read_only = 0, sf_custom = False\<rparr>"]
       lo up
  show ?thesis by simp
qed

text \<open>
  C5. The column of a relation field is the column of the base algorithm, followed by
  \<open>Id\<close> exactly when there is no \<open>db_column\<close> override and the field is not custom.
\<close>

theorem ForeignKey_column_Id_suffix:
  "(db_column self = None \<and> \<not> sf_custom self \<longrightarrow>
      snd (ForeignKey_get_attname_column islower title self) =
        snd (SfField_get_attname_column islower title (ForeignKey_get_attname islower) self) @ ''Id'')
   \<and> (\<not> (db_column self = None \<and> \<not> sf_custom self) \<longrightarrow>
      snd (ForeignKey_get_attname_column islower title self) =
        snd (SfField_get_attname_column islower title (ForeignKey_get_attname islower) self))"
  by (simp add: ForeignKey_column_unfold)

theorem ForeignKey_column_Id_suffix_witness:
  "snd (ForeignKey_get_attname_column islower_ascii title_ascii
          \<lparr>name = ''owner'', db_column = None, sf_read_only = 0, sf_custom = False\<rparr>) = ''OwnerId''
   \<and> snd (ForeignKey_get_attname_column islower_ascii title_ascii
          \<lparr>name = ''my_lookup'', db_column = None, sf_read_only = 0, sf_custom = True\<rparr>) = ''MyLookup__c''"
proof -
  let ?o = "\<lparr>name = ''owner'', db_column = None, sf_read_only = 0, sf_custom = False\<rparr>"
  let ?m = "\<lparr>name = ''my_lookup'', db_column = None, sf_read_only = 0, sf_custom = True\<rparr>"
  have o: "snd (SfField_get_attname_column islower_ascii title_ascii
                  (ForeignKey_get_attname islower_ascii) ?o) = ''Owner''"
    by code_simp
  have m: "snd (SfField_get_attname_column islower_ascii title_ascii
                  (ForeignKey_get_attname islower_ascii) ?m) = ''MyLookup__c''"
    by code_simp
  from ForeignKey_column_Id_suffix
         [where islower = islower_ascii and title = title_ascii and self = ?o]
       ForeignKey_column_Id_suffix
         [where islower = islower_ascii and title = title_ascii and self = ?m]
       o m
  show ?thesis by simp
qed

text \<open>
  C6. Unless \<open>primary_key\<close> is passed as \<open>True\<close>, the constructor of the identifier field
  fails with an assertion error. With \<open>primary_key=True\<close> the assertion passes and the
  framework's constructor is called with \<open>null\<close> and \<open>blank\<close> set to False and \<open>default\<close>
  set to None, whatever the caller gave for them, and with every other option as given.
\<close>

theorem SalesforceAutoField_init_primary_key:
  "(kwargs ''primary_key'' \<noteq> Some (PyBool True) \<longrightarrow>
      SalesforceAutoField_init Field_init class_name args kwargs =
        Inl (AssertionError (class_name @ ''s must have primary_key=True.'')))
   \<and> (kwargs ''primary_key'' = Some (PyBool True) \<longrightarrow>
      (\<exists>forced.
         SalesforceAutoField_init Field_init class_name args kwargs = Field_init args forced
         \<and> forced ''null'' = Some (PyBool False)
         \<and> forced ''blank'' = Some (PyBool False)
         \<and> forced ''default'' = Some PyNone
         \<and> (\<forall>key. key \<notin> {''null'', ''blank'', ''default''} \<longrightarrow> forced key = kwargs key)))"
proof (intro conjI impI)
  assume "kwargs ''primary_key'' \<noteq> Some (PyBool True)"
  then show "SalesforceAutoField_init Field_init class_name args kwargs =
        Inl (AssertionError (class_name @ ''s must have primary_key=True.''))"
    by (auto simp: SalesforceAutoField_init_def kwargs_get_def split: option.splits)
next
  assume pk: "kwargs ''primary_key'' = Some (PyBool True)"
  let ?forced = "kwargs(''blank'' \<mapsto> PyBool False, ''null'' \<mapsto> PyBool False, ''default'' \<mapsto> PyNone)"
  have "SalesforceAutoField_init Field_init class_name args kwargs = Field_init args ?forced"
    using pk by (simp add: SalesforceAutoField_init_def kwargs_get_def)
  moreover have "?forced ''null'' = Some (PyBool False)" "?forced ''blank'' = Some (PyBool False)"
    "?forced ''default'' = Some PyNone" by simp_all
  moreover have "\<forall>key. key \<notin> {''null'', ''blank'', ''default''} \<longrightarrow> ?forced key = kwargs key"
    by simp
  ultimately show "\<exists>forced.
         SalesforceAutoField_init Field_init class_name args kwargs = Field_init args forced
         \<and> forced ''null'' = Some (PyBool False)
         \<and> forced ''blank'' = Some (PyBool False)
         \<and> forced ''default'' = Some PyNone
         \<and> (\<forall>key. key \<notin> {''null'', ''blank'', ''default''} \<longrightarrow> forced key = kwargs key)"
    by blast
qed



theorem SalesforceAutoField_init_primary_key_witness:
  "SalesforceAutoField_init (\<lambda>args kwargs. Inr (kwargs ''null'', kwargs ''blank'', kwargs ''default''))
      ''SalesforceAutoField'' [] [''primary_key'' \<mapsto> PyInt 1]
     = Inl (AssertionError ''SalesforceAutoFields must have primary_key=True.'')
   \<and> SalesforceAutoField_init (\<lambda>args kwargs. Inr (kwargs ''null'', kwargs ''blank'', kwargs ''default''))
      ''SalesforceAutoField'' []
      [''primary_key'' \<mapsto> PyBool True, ''null'' \<mapsto> PyBool True, ''default'' \<mapsto> PyStr ''x'']
     = Inr (Some (PyBool False), Some (PyBool False), Some PyNone)"
proof -
  let ?F = "\<lambda>(args :: pyval list) (kwargs :: kwargs).
     (Inr (kwargs ''null'', kwargs ''blank'', kwargs ''default'')
      :: error + (pyval option \<times> pyval option \<times> pyval option))"
  let ?k2 = "[''primary_key'' \<mapsto> PyInt 1]"
  let ?k3 = "[''primary_key'' \<mapsto> PyBool True, ''null'' \<mapsto> PyBool True, ''default'' \<mapsto> PyStr ''x'']"
  have 2: "?k2 ''primary_key'' \<noteq> Some (PyBool True)" by simp
  have 3: "?k3 ''primary_key'' = Some (PyBool True)" by simp
  have a: "SalesforceAutoField_init ?F ''SalesforceAutoField'' [] ?k2
             = Inl (AssertionError (''SalesforceAutoField'' @ ''s must have primary_key=True.''))"
    using SalesforceAutoField_init_primary_key [of ?k2 ?F "''SalesforceAutoField''" "[]"] 2
    by blast
  obtain forced where f: "SalesforceAutoField_init ?F ''SalesforceAutoField'' [] ?k3 = ?F [] forced"
      "forced ''null'' = Some (PyBool False)" "forced ''blank'' = Some (PyBool False)"
      "forced ''default'' = Some PyNone"
    using SalesforceAutoField_init_primary_key [of ?k3 ?F "''SalesforceAutoField''" "[]"] 3
    by blast
  have b: "SalesforceAutoField_init ?F ''SalesforceAutoField'' [] ?k3
             = Inr (Some (PyBool False), Some (PyBool False), Some PyNone)"
    using f by simp
  show ?thesis using a b by simp
qed

text \<open>The three outcomes of \<open>contribute_to_class\<close>, and runs of attachments.\<close>

lemma contribute_to_class_refused:
  "has_auto_field cls \<Longrightarrow>
   contribute_to_class super_contribute self cls nm =
     Inl (AssertionError (''A model can'' @ [CHR 0x27] @ ''t have more than one AutoField.''))"
  by (simp add: contribute_to_class_def)

lemma contribute_to_class_Inr:
  "contribute_to_class super_contribute self cls nm = Inr cls' \<Longrightarrow>
   \<not> has_auto_field cls \<and> has_auto_field cls' \<and> auto_field cls' = Some self"
  by (auto simp: contribute_to_class_def split: if_splits sum.splits)

lemma contribute_to_class_accepts:
  "\<not> has_auto_field cls \<Longrightarrow> super_contribute self cls nm = Inr c \<Longrightarrow>
   contribute_to_class super_contribute self cls nm =
     Inr (c\<lparr>has_auto_field := True, auto_field := Some self\<rparr>)"
  by (simp add: contribute_to_class_def)

lemma contribute_all_flagged:
  "has_auto_field cls \<Longrightarrow> contribute_all super_contribute cls fs = Inr cls' \<Longrightarrow> fs = []"
  by (cases fs) (auto simp: contribute_to_class_refused)

lemma contribute_all_at_most_one:
  "contribute_all super_contribute cls fs = Inr cls' \<Longrightarrow> length fs \<le> 1"
proof (cases fs)
  case Nil
  then show ?thesis by simp
next
  case (Cons p rest)
  obtain f nm where p: "p = (f, nm)" by (cases p)
  assume ok: "contribute_all super_contribute cls fs = Inr cls'"
  then obtain mid where
    first: "contribute_to_class super_contribute f cls nm = Inr mid" and
    then_rest: "contribute_all super_contribute mid rest = Inr cls'"
    using Cons p by (auto split: sum.splits)
  from first have "has_auto_field mid" by (simp add: contribute_to_class_Inr)
  from this then_rest have "rest = []" by (rule contribute_all_flagged)
  with Cons show ?thesis by simp
qed

text \<open>
  C7. Attaching an identifier field to a class that already has one fails with an assertion
  error; attaching one to a class without (when the inherited hook succeeds) marks the class
  as having an auto field and records the field; after a successful attachment every further
  attachment fails, so a run of attachments that succeeds has at most one field.
\<close>

theorem one_auto_field_per_class:
  "(has_auto_field cls \<longrightarrow>
      contribute_to_class super_contribute self cls nm =
        Inl (AssertionError (''A model can'' @ [CHR 0x27] @ ''t have more than one AutoField.'')))
   \<and> (\<not> has_auto_field cls \<and> super_contribute self cls nm = Inr c \<longrightarrow>
      contribute_to_class super_contribute self cls nm =
        Inr (c\<lparr>has_auto_field := True, auto_field := Some self\<rparr>))
   \<and> (contribute_to_class super_contribute self cls nm = Inr cls' \<longrightarrow>
      has_auto_field cls' \<and> auto_field cls' = Some self
      \<and> contribute_to_class super_contribute second cls' nm2 =
          Inl (AssertionError (''A model can'' @ [CHR 0x27] @ ''t have more than one AutoField.'')))
   \<and> (contribute_all super_contribute cls fs = Inr cls'' \<longrightarrow> length fs \<le> 1)"
  using contribute_to_class_refused [of cls super_contribute self nm]
    contribute_to_class_accepts [of cls super_contribute self nm c]
    contribute_to_class_Inr [of super_contribute self cls nm cls']
    contribute_to_class_refused [of cls' super_contribute second nm2]
    contribute_all_at_most_one [of super_contribute cls fs cls'']
  by blast

theorem one_auto_field_per_class_witness:
  "contribute_to_class (\<lambda>f cls nm. Inr cls) ''id_field''
      \<lparr>has_auto_field = False, auto_field = None\<rparr> ''Id''
     = Inr \<lparr>has_auto_field = True, auto_field = Some ''id_field''\<rparr>
   \<and> contribute_to_class (\<lambda>f cls nm. Inr cls) ''other_id''
      \<lparr>has_auto_field = True, auto_field = Some ''id_field''\<rparr> ''Id2''
     = Inl (AssertionError (''A model can'' @ [CHR 0x27] @ ''t have more than one AutoField.''))
   \<and> length [(''id_field'', ''Id'')] \<le> 1"
proof -
  let ?sup = "\<lambda>(f :: string) (cls :: string options) (nm :: string). (Inr cls :: error + string options)"
  let ?c0 = "\<lparr>has_auto_field = False, auto_field = None :: string option\<rparr>"
  let ?c1 = "\<lparr>has_auto_field = True, auto_field = Some ''id_field''\<rparr>"
  note t = one_auto_field_per_class
    [of ?c0 ?sup "''id_field''" "''Id''" ?c0 ?c1 "''other_id''" "''Id2''" "[(''id_field'', ''Id'')]" ?c1]
  have pre: "\<not> has_auto_field ?c0 \<and> ?sup ''id_field'' ?c0 ''Id'' = Inr ?c0" by simp
  have upd: "?c0\<lparr>has_auto_field := True, auto_field := Some ''id_field''\<rparr> = ?c1" by simp
  have a: "contribute_to_class ?sup ''id_field'' ?c0 ''Id'' = Inr ?c1"
    using t pre upd by metis
  have b: "contribute_to_class ?sup ''other_id'' ?c1 ''Id2''
      = Inl (AssertionError (''A model can'' @ [CHR 0x27] @ ''t have more than one AutoField.''))"
    using t a by blast
  have all: "contribute_all ?sup ?c0 [(''id_field'', ''Id'')] = Inr ?c1"
    using a by simp
  have c: "length [(''id_field'', ''Id'')] \<le> 1"
    using t all by blast
  show ?thesis using a b c by blast
qed

text \<open>
  C9 as stated fails: a lazy translation object is neither None nor a string, the
  framework's \<open>smart_text\<close> hands it back as it is, and so does \<open>to_python\<close>. The value
  returned is not text.
\<close>

theorem to_python_lazy_not_text:
  "PyLazy ''Text'' \<noteq> PyNone
   \<and> to_python (django_smart_text (\<lambda>s. Inr (PyStr []))) (PyLazy ''Text'') = Inr (PyLazy ''Text'')
   \<and> \<not> isinstance_string_types (PyLazy ''Text'')"
  by (simp add: to_python_def django_smart_text_def isinstance_string_types_def)

text \<open>
  C9, amended. \<open>to_python\<close> returns None for None and a string unchanged; any other value
  goes to \<open>smart_text\<close>, and what that call returns or raises is the outcome, as it is: text
  whenever \<open>smart_text\<close> returns text. \<open>get_prep_value\<close> is \<open>to_python\<close>, and \<open>validate\<close>
  accepts every value.
\<close>

theorem to_python_delegates:
  "to_python smart_text PyNone = Inr PyNone
   \<and> to_python smart_text (PyStr s) = Inr (PyStr s)
   \<and> (\<not> isinstance_string_types v \<and> v \<noteq> PyNone \<longrightarrow> to_python smart_text v = smart_text v)
   \<and> (\<not> isinstance_string_types v \<and> v \<noteq> PyNone \<and> smart_text v = Inr (PyStr t) \<longrightarrow>
        to_python smart_text v = Inr (PyStr t))
   \<and> get_prep_value smart_text v = to_python smart_text v
   \<and> validate v model_instance = Inr ()"
  by (simp add: to_python_def get_prep_value_def validate_def isinstance_string_types_def)

theorem to_python_delegates_witness:
  "\<not> isinstance_string_types (PyInt 7) \<and> PyInt 7 \<noteq> PyNone
   \<and> django_smart_text (\<lambda>s. Inr (PyStr ''7'')) (PyInt 7) = Inr (PyStr ''7'')
   \<and> to_python (django_smart_text (\<lambda>s. Inr (PyStr ''7''))) (PyInt 7) = Inr (PyStr ''7'')
   \<and> to_python (django_smart_text (\<lambda>s. Inr (PyStr ''7''))) (PyStr ''001A000000abcde'')
        = Inr (PyStr ''001A000000abcde'')
   \<and> to_python (django_smart_text (\<lambda>s. Inr (PyStr ''7''))) PyNone = Inr PyNone"
proof -
  let ?st = "django_smart_text (\<lambda>s. Inr (PyStr ''7''))"
  have h: "\<not> isinstance_string_types (PyInt 7) \<and> PyInt 7 \<noteq> PyNone"
    by (simp add: isinstance_string_types_def)
  have st: "?st (PyInt 7) = Inr (PyStr ''7'')"
    by (simp add: django_smart_text_def)
  note t = to_python_delegates
    [where smart_text = ?st and s = "''001A000000abcde''" and v = "PyInt 7" and t = "''7''"
       and model_instance = "()"]
  have a: "to_python ?st (PyInt 7) = Inr (PyStr ''7'')"
    using t h st by blast
  have b: "to_python ?st (PyStr ''001A000000abcde'') = Inr (PyStr ''001A000000abcde'')"
    using t by blast
  have c: "to_python ?st PyNone = Inr PyNone"
    using t by blast
  show ?thesis using h st a b c by simp
qed

text \<open>
  The paths of \<open>ForeignKey_init\<close> when the related model is the first positional argument:
  one warning for an unsupported policy, none for PROTECT and DO_NOTHING, and CASCADE when
  no policy is given. The arguments are passed on as they were received.
\<close>

lemma ForeignKey_init_warns:
  "getattr_name (kwargs_get kwargs ''on_delete'' CASCADE) = Inr policy \<Longrightarrow>
   policy \<noteq> ''PROTECT'' \<Longrightarrow> policy \<noteq> ''DO_NOTHING'' \<Longrightarrow>
   ForeignKey_init str_of super_init (related # others) kwargs warnings =
     super_init (related # others) kwargs
       (warnings @ [on_delete_warning policy (str_of related)])"
  by (simp add: ForeignKey_init_def args_first_def)

lemma ForeignKey_init_silent:
  "getattr_name (kwargs_get kwargs ''on_delete'' CASCADE) = Inr policy \<Longrightarrow>
   policy = ''PROTECT'' \<or> policy = ''DO_NOTHING'' \<Longrightarrow>
   ForeignKey_init str_of super_init args kwargs warnings = super_init args kwargs warnings"
  by (auto simp: ForeignKey_init_def)

lemma ForeignKey_init_default_CASCADE:
  "kwargs ''on_delete'' = None \<Longrightarrow>
   ForeignKey_init str_of super_init (related # others) kwargs warnings =
     super_init (related # others) kwargs
       (warnings @ [on_delete_warning ''CASCADE'' (str_of related)])"
  by (simp add: ForeignKey_init_def args_first_def kwargs_get_def getattr_name_def CASCADE_def)

text \<open>
  C8. The related model passed by keyword (\<^verbatim>\<open>ForeignKey(to=Account, on_delete=SET_NULL)\<close>)
  leaves \<open>args\<close> empty: with a policy other than PROTECT and DO_NOTHING the constructor
  evaluates \<^verbatim>\<open>args[0]\<close> and raises IndexError, before any warning is issued and before
  the framework's constructor is reached.
\<close>

theorem ForeignKey_init_keyword_to_IndexError:
  "ForeignKey_init str_of super_init []
     [''to'' \<mapsto> PyObj ''Account'', ''on_delete'' \<mapsto> SET_NULL] warnings
   = (Inl IndexError, warnings)"
  by (simp add: ForeignKey_init_def args_first_def kwargs_get_def getattr_name_def SET_NULL_def)

text \<open>
  C10. Without \<open>on_delete\<close> the policy is CASCADE, which takes the warning branch; when
  the related model is passed by keyword (\<^verbatim>\<open>ForeignKey(to=Account)\<close>) that branch raises
  IndexError at \<^verbatim>\<open>args[0]\<close> and no warning is issued.
\<close>

theorem ForeignKey_init_default_keyword_to_IndexError:
  "ForeignKey_init str_of super_init [] [''to'' \<mapsto> PyObj ''Account''] warnings
   = (Inl IndexError, warnings)"
  by (simp add: ForeignKey_init_def args_first_def kwargs_get_def getattr_name_def CASCADE_def)

end
